theory Spec2Isabelle
  imports Complex_Main "HOL-Library.Word"
begin

unbundle bit_operations_syntax

section \<open>Data model\<close>

type_synonym byte = "8 word"

text \<open>
  Modelled from the spec: the enumeration \<open>MMA8452Q_Register\<close> is declared in the header
  \<open>MMA8452Q.h\<close>, which is not among the sources. The spec asks for a closed enumeration
  with associated numeric codes; the constructors are the register names the driver uses
  in \<open>MMA8452Q.cpp\<close>. Their numeric codes are not invented here: every operation takes
  the code table \<open>rc\<close> as a parameter and sends \<open>rc reg\<close> where the C++ passes the
  enumerator to \<open>Wire.write\<close>.
\<close>

datatype MMA8452Q_Register =
    STATUS_MMA8452Q | OUT_X_MSB | WHO_AM_I | XYZ_DATA_CFG
  | PL_STATUS | PL_CFG | PL_COUNT
  | PULSE_CFG | PULSE_SRC | PULSE_THSX | PULSE_THSY | PULSE_THSZ
  | PULSE_TMLT | PULSE_LTCY | PULSE_WIND | CTRL_REG1

text \<open>
  Modelled from the spec: \<open>MMA8452Q_Scale\<close> and its enumerators' values come from the
  missing header. The values 2, 4 and 8 are the ones the source relies on: line 81 shifts
  the enumerator right by 2 to get the codes 00, 01, 10 for 2G, 4G, 8G, and line 58
  multiplies by the enumerator as the range in g (spec: range_in_g in {2, 4, 8}).
\<close>

datatype MMA8452Q_Scale = SCALE_2G | SCALE_4G | SCALE_8G

fun scale_val :: "MMA8452Q_Scale \<Rightarrow> int" where
  "scale_val SCALE_2G = 2"
| "scale_val SCALE_4G = 4"
| "scale_val SCALE_8G = 8"

text \<open>
  Modelled from the spec: \<open>MMA8452Q_ODR\<close> comes from the missing header. The source lists
  the enumerators in this order (line 89) and the spec gives the rates in the same order;
  a C enumeration numbers them from 0, which is the 3-bit rate code that \<open>setODR\<close> shifts
  into bits 3 to 5.
\<close>

datatype MMA8452Q_ODR =
  ODR_800 | ODR_400 | ODR_200 | ODR_100 | ODR_50 | ODR_12 | ODR_6 | ODR_1

fun odr_val :: "MMA8452Q_ODR \<Rightarrow> int" where
  "odr_val ODR_800 = 0"
| "odr_val ODR_400 = 1"
| "odr_val ODR_200 = 2"
| "odr_val ODR_100 = 3"
| "odr_val ODR_50 = 4"
| "odr_val ODR_12 = 5"
| "odr_val ODR_6 = 6"
| "odr_val ODR_1 = 7"

text \<open>
  The driver object: the bus address, the configured full-scale range, the raw sample
  (the C++ members \<open>x\<close>, \<open>y\<close>, \<open>z\<close>, here \<open>raw_x\<close>, \<open>raw_y\<close>, \<open>raw_z\<close> so that the
  letters stay free for variables) and the calibrated sample \<open>cx\<close>, \<open>cy\<close>, \<open>cz\<close>.
\<close>

record MMA8452Q =
  address :: byte
  scale :: MMA8452Q_Scale
  raw_x :: int
  raw_y :: int
  raw_z :: int
  cx :: rat
  cy :: rat
  cz :: rat

section \<open>The bus transport\<close>

text \<open>
  The two-wire transport (\<open>Wire\<close>) is an external collaborator. It is modelled as a mock
  bus with the sensor as its one device: a register file, the device's register
  pointer, the transmit and receive buffers, the log of register writes the device has
  taken (oldest first), and a schedule \<open>arrivals\<close> of transport faults: its head bounds
  the number of bytes the next request delivers; an empty schedule delivers every byte
  requested. The mock answers at whatever address the driver uses.
\<close>

record wire =
  regs :: "byte \<Rightarrow> byte"
  pointer :: byte
  txBuffer :: "byte list"
  rxBuffer :: "byte list"
  writes :: "(byte \<times> byte) list"
  arrivals :: "nat list"

fun store :: "(byte \<Rightarrow> byte) \<Rightarrow> byte \<Rightarrow> byte list \<Rightarrow> (byte \<Rightarrow> byte)" where
  "store m r [] = m"
| "store m r (v # vs) = store (m(r := v)) (r + 1) vs"

fun stores :: "byte \<Rightarrow> byte list \<Rightarrow> (byte \<times> byte) list" where
  "stores r [] = []"
| "stores r (v # vs) = (r, v) # stores (r + 1) vs"

definition Wire_begin :: "wire \<Rightarrow> wire" where
  "Wire_begin w = w\<lparr>txBuffer := [], rxBuffer := []\<rparr>"

definition Wire_beginTransmission :: "byte \<Rightarrow> wire \<Rightarrow> wire" where
  "Wire_beginTransmission a w = w\<lparr>txBuffer := []\<rparr>"

definition Wire_write :: "byte \<Rightarrow> wire \<Rightarrow> wire" where
  "Wire_write b w = w\<lparr>txBuffer := txBuffer w @ [b]\<rparr>"

text \<open>
  Ending a transmission hands the queued bytes to the device: the first is the register
  pointer, the others are stored from there on, the pointer moving up by one per byte.
\<close>

definition Wire_endTransmission :: "bool \<Rightarrow> wire \<Rightarrow> wire" where
  "Wire_endTransmission sendStop w =
     (case txBuffer w of
        [] \<Rightarrow> w
      | r # vs \<Rightarrow>
          w\<lparr>regs := store (regs w) r vs,
            pointer := r + of_nat (length vs),
            writes := writes w @ stores r vs,
            txBuffer := []\<rparr>)"

definition delivered :: "wire \<Rightarrow> nat \<Rightarrow> nat" where
  "delivered w n = (case arrivals w of [] \<Rightarrow> n | k # ks \<Rightarrow> min k n)"

definition Wire_requestFrom :: "byte \<Rightarrow> nat \<Rightarrow> wire \<Rightarrow> wire" where
  "Wire_requestFrom a n w =
     w\<lparr>rxBuffer := map (\<lambda>i. regs w (pointer w + of_nat i)) [0 ..< delivered w n],
       pointer := pointer w + of_nat (delivered w n),
       arrivals := tl (arrivals w)\<rparr>"

definition Wire_available :: "wire \<Rightarrow> nat" where
  "Wire_available w = length (rxBuffer w)"

text \<open>\<open>Wire.read()\<close> returns an \<open>int\<close>: the next byte, or -1 when none is left.\<close>

definition Wire_read :: "wire \<Rightarrow> int \<times> wire" where
  "Wire_read w =
     (case rxBuffer w of
        [] \<Rightarrow> (- 1, w)
      | b # bs \<Rightarrow> (uint b, w\<lparr>rxBuffer := bs\<rparr>))"

section \<open>The driver\<close>

subsection \<open>Register access\<close>

text \<open>
  \<open>writeRegisters\<close> (lines 211 to 217): the loop queues \<open>len\<close> bytes of the buffer; the
  call of \<open>endTransmission\<close> is indented like the loop body but follows the loop. A buffer
  shorter than \<open>len\<close> is read out of bounds in C; the model queues the bytes there are.
\<close>

definition writeRegisters ::
  "(MMA8452Q_Register \<Rightarrow> byte) \<Rightarrow> byte \<Rightarrow> MMA8452Q_Register \<Rightarrow> byte list \<Rightarrow> byte \<Rightarrow> wire \<Rightarrow> wire"
where
  "writeRegisters rc addr reg buffer len w =
     Wire_endTransmission True
       (fold Wire_write (take (unat len) buffer)
          (Wire_write (rc reg) (Wire_beginTransmission addr w)))"

definition writeRegister ::
  "(MMA8452Q_Register \<Rightarrow> byte) \<Rightarrow> byte \<Rightarrow> MMA8452Q_Register \<Rightarrow> byte \<Rightarrow> wire \<Rightarrow> wire"
where
  "writeRegister rc addr reg data w = writeRegisters rc addr reg [data] 1 w"

text \<open>\<open>readRegister\<close> (lines 223 to 235): 0 when no byte has arrived.\<close>

definition readRegister ::
  "(MMA8452Q_Register \<Rightarrow> byte) \<Rightarrow> byte \<Rightarrow> MMA8452Q_Register \<Rightarrow> wire \<Rightarrow> byte \<times> wire"
where
  "readRegister rc addr reg w =
     (let w1 = Wire_endTransmission False
                 (Wire_write (rc reg) (Wire_beginTransmission addr w));
          w2 = Wire_requestFrom addr 1 w1
      in if Wire_available w2 \<noteq> 0
         then (let (v, w3) = Wire_read w2 in (word_of_int v, w3))
         else (0, w2))"

text \<open>
  The loop of \<open>readRegisters\<close> (lines 249 and 250): \<open>buffer[x] = Wire.read()\<close> for
  \<open>x\<close> from the current index, \<open>n\<close> more times. A store beyond the buffer is undefined
  in C; \<open>list_update\<close> stores nothing there.
\<close>

fun read_into :: "nat \<Rightarrow> nat \<Rightarrow> byte list \<Rightarrow> wire \<Rightarrow> byte list \<times> wire" where
  "read_into 0 i buffer w = (buffer, w)"
| "read_into (Suc n) i buffer w =
     (let (v, w') = Wire_read w in read_into n (Suc i) (buffer[i := word_of_int v]) w')"

definition readRegisters ::
  "(MMA8452Q_Register \<Rightarrow> byte) \<Rightarrow> byte \<Rightarrow> MMA8452Q_Register \<Rightarrow> byte list \<Rightarrow> byte \<Rightarrow> wire
     \<Rightarrow> byte list \<times> wire"
where
  "readRegisters rc addr reg buffer len w =
     (let w1 = Wire_endTransmission False
                 (Wire_write (rc reg) (Wire_beginTransmission addr w));
          w2 = Wire_requestFrom addr (unat len) w1
      in if Wire_available w2 = unat len
         then read_into (unat len) 0 buffer w2
         else (buffer, w2))"

subsection \<open>Mode, scale, data rate\<close>

definition standby :: "(MMA8452Q_Register \<Rightarrow> byte) \<Rightarrow> byte \<Rightarrow> wire \<Rightarrow> wire" where
  "standby rc addr w =
     (let (c, w1) = readRegister rc addr CTRL_REG1 w
      in writeRegister rc addr CTRL_REG1 (c AND NOT 1) w1)"

definition active :: "(MMA8452Q_Register \<Rightarrow> byte) \<Rightarrow> byte \<Rightarrow> wire \<Rightarrow> wire" where
  "active rc addr w =
     (let (c, w1) = readRegister rc addr CTRL_REG1 w
      in writeRegister rc addr CTRL_REG1 (c OR 1) w1)"

definition setScale ::
  "(MMA8452Q_Register \<Rightarrow> byte) \<Rightarrow> byte \<Rightarrow> MMA8452Q_Scale \<Rightarrow> wire \<Rightarrow> wire"
where
  "setScale rc addr fsr w =
     (let (cfg, w1) = readRegister rc addr XYZ_DATA_CFG w;
          cfg1 = cfg AND 0xFC;
          cfg2 = cfg1 OR word_of_int (drop_bit 2 (scale_val fsr))
      in writeRegister rc addr XYZ_DATA_CFG cfg2 w1)"

definition setODR ::
  "(MMA8452Q_Register \<Rightarrow> byte) \<Rightarrow> byte \<Rightarrow> MMA8452Q_ODR \<Rightarrow> wire \<Rightarrow> wire"
where
  "setODR rc addr odr w =
     (let (ctrl, w1) = readRegister rc addr CTRL_REG1 w;
          ctrl1 = ctrl AND 0xC7;
          ctrl2 = ctrl1 OR word_of_int (push_bit 3 (odr_val odr))
      in writeRegister rc addr CTRL_REG1 ctrl2 w1)"

subsection \<open>Sample decoding\<close>

text \<open>
  Line 55: \<open>((short)(rawData[0]<<8 | rawData[1])) >> 4\<close>. The two bytes make a 16-bit
  value, read as two's complement by the cast to \<open>short\<close>; the shift of the signed value
  is arithmetic. Where \<open>int\<close> has 16 bits the left shift already wraps to this word,
  where it is wider the cast truncates to it.
\<close>

definition decode :: "byte \<Rightarrow> byte \<Rightarrow> int" where
  "decode hi lo =
     sint (signed_drop_bit 4 (push_bit 8 (ucast hi :: 16 word) OR (ucast lo :: 16 word)))"

text \<open>
  Line 58: \<open>(float) x / (float)(1<<11) * (float)(scale)\<close>. The platform's \<open>float\<close>
  arithmetic is not part of the sources: \<open>fl\<close> is its rounding, applied to the exact
  result of every conversion and operation, and a parameter of the model.
\<close>

text \<open>
  What is known of the rounding: the finite numbers of the IEEE 754 single format are
  \<open>m * 2 ^ e\<close> with \<open>\<bar>m\<bar> < 2 ^ 24\<close> and \<open>- 149 \<le> e \<le> 104\<close> (the exponent is written
  as a difference of naturals), and a correctly rounded operation returns the exact
  result when that is such a number.
\<close>

definition binary32 :: "rat \<Rightarrow> bool" where
  "binary32 r \<longleftrightarrow>
     (\<exists>m a b. \<bar>m\<bar> < 2 ^ 24 \<and> a \<le> (104 :: nat) \<and> b \<le> (149 :: nat)
        \<and> r = of_int m * 2 ^ a / 2 ^ b)"

definition exact_rounding :: "(rat \<Rightarrow> rat) \<Rightarrow> bool" where
  "exact_rounding fl \<longleftrightarrow> (\<forall>r. binary32 r \<longrightarrow> fl r = r)"

text \<open>
  One such rounding, for the examples: round to nearest, ties to even, with a 24-bit
  significand and the exponent range of the single format. \<open>e\<close> is the least exponent
  of the format at which the significand fits. There is no infinity in \<open>rat\<close>: a value
  of magnitude \<open>2 ^ 128\<close> or more is left as it is.
\<close>

definition nearest_even :: "rat \<Rightarrow> int" where
  "nearest_even q =
     (let f = \<lfloor>q\<rfloor>; t = q - of_int f
      in if t < 1 / 2 then f
         else if 1 / 2 < t then f + 1
         else if even f then f else f + 1)"

definition round_binary32 :: "rat \<Rightarrow> rat" where
  "round_binary32 r =
     (case List.find (\<lambda>e. \<bar>r\<bar> < 2 ^ 24 * 2 powi e) [- 149 .. 104] of
        Some e \<Rightarrow> of_int (nearest_even (r / 2 powi e)) * 2 powi e
      | None \<Rightarrow> r)"

definition calibrated :: "(rat \<Rightarrow> rat) \<Rightarrow> int \<Rightarrow> MMA8452Q_Scale \<Rightarrow> rat" where
  "calibrated fl v s =
     fl (fl (fl (of_int v) / fl (of_int (push_bit 11 1))) * fl (of_int (scale_val s)))"

text \<open>
  \<open>read\<close> (lines 50 to 61). The local array \<open>rawData\<close> is not initialised: \<open>stack\<close>,
  a list of six bytes, is what it holds on entry.
\<close>

definition read ::
  "(rat \<Rightarrow> rat) \<Rightarrow> (MMA8452Q_Register \<Rightarrow> byte) \<Rightarrow> byte list \<Rightarrow> MMA8452Q \<Rightarrow> wire
     \<Rightarrow> MMA8452Q \<times> wire"
where
  "read fl rc stack d w =
     (let (rawData, w1) = readRegisters rc (address d) OUT_X_MSB stack 6 w;
          xv = decode (rawData ! 0) (rawData ! 1);
          yv = decode (rawData ! 2) (rawData ! 3);
          zv = decode (rawData ! 4) (rawData ! 5)
      in (d\<lparr>raw_x := xv, raw_y := yv, raw_z := zv,
             cx := calibrated fl xv (scale d),
             cy := calibrated fl yv (scale d),
             cz := calibrated fl zv (scale d)\<rparr>, w1))"

definition available :: "(MMA8452Q_Register \<Rightarrow> byte) \<Rightarrow> byte \<Rightarrow> wire \<Rightarrow> byte \<times> wire" where
  "available rc addr w =
     (let (s, w1) = readRegister rc addr STATUS_MMA8452Q w
      in (drop_bit 3 (s AND 0x08), w1))"

subsection \<open>Tap detection\<close>

definition setupTap ::
  "(MMA8452Q_Register \<Rightarrow> byte) \<Rightarrow> byte \<Rightarrow> byte \<Rightarrow> byte \<Rightarrow> byte \<Rightarrow> wire \<Rightarrow> wire"
where
  "setupTap rc addr xThs yThs zThs w =
     (let temp = (0 :: byte);
          (temp, w) = (if xThs AND 0x80 = 0
                       then (temp OR 0x3, writeRegister rc addr PULSE_THSX xThs w)
                       else (temp, w));
          (temp, w) = (if yThs AND 0x80 = 0
                       then (temp OR 0xC, writeRegister rc addr PULSE_THSY yThs w)
                       else (temp, w));
          (temp, w) = (if zThs AND 0x80 = 0
                       then (temp OR 0x30, writeRegister rc addr PULSE_THSZ zThs w)
                       else (temp, w));
          w = writeRegister rc addr PULSE_CFG (temp OR 0x40) w;
          w = writeRegister rc addr PULSE_TMLT 0x30 w;
          w = writeRegister rc addr PULSE_LTCY 0xA0 w
      in writeRegister rc addr PULSE_WIND 0xFF w)"

definition readTap :: "(MMA8452Q_Register \<Rightarrow> byte) \<Rightarrow> byte \<Rightarrow> wire \<Rightarrow> byte \<times> wire" where
  "readTap rc addr w =
     (let (tapStat, w1) = readRegister rc addr PULSE_SRC w
      in if tapStat AND 0x80 \<noteq> 0 then (tapStat AND 0x7F, w1) else (0, w1))"

subsection \<open>Portrait and landscape detection\<close>

definition setupPL :: "(MMA8452Q_Register \<Rightarrow> byte) \<Rightarrow> byte \<Rightarrow> wire \<Rightarrow> wire" where
  "setupPL rc addr w =
     (let (v, w1) = readRegister rc addr PL_CFG w;
          w2 = writeRegister rc addr PL_CFG (v OR 0x40) w1
      in writeRegister rc addr PL_COUNT 0x50 w2)"

text \<open>
  \<open>readPL\<close> (lines 172 to 179). The constant \<open>LOCKOUT\<close> is defined in the missing header;
  it is the parameter \<open>lockout\<close>.
\<close>

definition readPL ::
  "(MMA8452Q_Register \<Rightarrow> byte) \<Rightarrow> byte \<Rightarrow> byte \<Rightarrow> wire \<Rightarrow> byte \<times> wire"
where
  "readPL rc lockout addr w =
     (let (plStat, w1) = readRegister rc addr PL_STATUS w
      in if plStat AND 0x40 \<noteq> 0 then (lockout, w1)
         else (drop_bit 1 (plStat AND 0x6), w1))"

subsection \<open>Initialisation\<close>

text \<open>
  \<open>init\<close> (lines 16 to 39) returns the status byte, the driver object and the bus.
\<close>

definition init ::
  "(MMA8452Q_Register \<Rightarrow> byte) \<Rightarrow> MMA8452Q \<Rightarrow> MMA8452Q_Scale \<Rightarrow> MMA8452Q_ODR \<Rightarrow> wire
     \<Rightarrow> byte \<times> MMA8452Q \<times> wire"
where
  "init rc d fsr odr w =
     (let d = d\<lparr>scale := fsr\<rparr>;
          w = Wire_begin w;
          (c, w) = readRegister rc (address d) WHO_AM_I w
      in if c \<noteq> 0x2A then (0, d, w)
         else
           (let w = standby rc (address d) w;
                w = setScale rc (address d) (scale d) w;
                w = setODR rc (address d) odr w;
                w = setupPL rc (address d) w;
                w = setupTap rc (address d) 0x80 0x80 0x08 w;
                w = active rc (address d) w
            in (1, d, w)))"

section \<open>A mock device for the examples\<close>

text \<open>
  The examples run the driver on a concrete bus. \<open>datasheet\<close> is a code table for them,
  with the register addresses of the MMA8452Q data sheet; no general theorem depends on
  it. \<open>mock m faults\<close> is an idle bus whose device holds the register file \<open>m\<close>, and
  \<open>sensor\<close> a driver object at bus address 0x1D.
\<close>

fun datasheet :: "MMA8452Q_Register \<Rightarrow> byte" where
  "datasheet STATUS_MMA8452Q = 0x00"
| "datasheet OUT_X_MSB = 0x01"
| "datasheet WHO_AM_I = 0x0D"
| "datasheet XYZ_DATA_CFG = 0x0E"
| "datasheet PL_STATUS = 0x10"
| "datasheet PL_CFG = 0x11"
| "datasheet PL_COUNT = 0x12"
| "datasheet PULSE_CFG = 0x21"
| "datasheet PULSE_SRC = 0x22"
| "datasheet PULSE_THSX = 0x23"
| "datasheet PULSE_THSY = 0x24"
| "datasheet PULSE_THSZ = 0x25"
| "datasheet PULSE_TMLT = 0x26"
| "datasheet PULSE_LTCY = 0x27"
| "datasheet PULSE_WIND = 0x28"
| "datasheet CTRL_REG1 = 0x2A"

definition mock :: "(byte \<Rightarrow> byte) \<Rightarrow> nat list \<Rightarrow> wire" where
  "mock m faults =
     \<lparr>regs = m, pointer = 0, txBuffer = [], rxBuffer = [], writes = [], arrivals = faults\<rparr>"

text \<open>
  \<open>unanswered\<close> is a bus whose device holds 0xF3 in the data-config register and whose
  next request delivers no byte.
\<close>

definition unanswered :: wire where
  "unanswered =
     \<lparr>regs = (\<lambda>r. 0)(0x0E := 0xF3), pointer = 0, txBuffer = [], rxBuffer = [],
      writes = [], arrivals = [0]\<rparr>"

definition sensor :: MMA8452Q where
  "sensor = \<lparr>address = 0x1D, scale = SCALE_2G, raw_x = 0, raw_y = 0, raw_z = 0,
              cx = 0, cy = 0, cz = 0\<rparr>"

section \<open>Properties\<close>

subsection \<open>The register accesses on the mock bus\<close>

lemma delivered_le: "delivered w n \<le> n"
  by (simp add: delivered_def split: list.split)

lemma delivered_one: "delivered w 1 = 0 \<or> delivered w 1 = 1"
  using delivered_le [of w 1] by arith

lemma select_register:
  "Wire_endTransmission s (Wire_write r (Wire_beginTransmission addr w)) =
     w\<lparr>pointer := r, txBuffer := []\<rparr>"
  by (simp add: Wire_endTransmission_def Wire_write_def Wire_beginTransmission_def)

lemma writeRegister_eq:
  "writeRegister rc addr reg v w =
     w\<lparr>regs := (regs w)(rc reg := v), pointer := rc reg + 1,
       writes := writes w @ [(rc reg, v)], txBuffer := []\<rparr>"
  by (simp add: writeRegister_def writeRegisters_def Wire_endTransmission_def
      Wire_write_def Wire_beginTransmission_def)

lemma readRegister_eq:
  "readRegister rc addr reg w =
     (if delivered w 1 = 0
      then (0, w\<lparr>pointer := rc reg, txBuffer := [], rxBuffer := [], arrivals := tl (arrivals w)\<rparr>)
      else (regs w (rc reg),
            w\<lparr>pointer := rc reg + 1, txBuffer := [], rxBuffer := [],
              arrivals := tl (arrivals w)\<rparr>))"
proof -
  have d: "delivered (w\<lparr>pointer := rc reg, txBuffer := []\<rparr>) n = delivered w n" for n
    by (simp add: delivered_def)
  show ?thesis
    using delivered_one [of w]
    by (auto simp add: readRegister_def select_register Wire_requestFrom_def
        Wire_available_def Wire_read_def d Let_def)
qed

lemma readRegister_fst:
  "fst (readRegister rc addr reg w) = (if delivered w 1 = 0 then 0 else regs w (rc reg))"
  by (simp add: readRegister_eq)

lemma readRegister_regs: "regs (snd (readRegister rc addr reg w)) = regs w"
  by (simp add: readRegister_eq)

lemma readRegister_writes: "writes (snd (readRegister rc addr reg w)) = writes w"
  by (simp add: readRegister_eq)

lemma readRegister_arrivals: "arrivals (snd (readRegister rc addr reg w)) = tl (arrivals w)"
  by (simp add: readRegister_eq)

subsection \<open>Masks and bits of a byte\<close>

lemma and_0x80: "(b :: byte) AND 0x80 = 0 \<longleftrightarrow> \<not> bit b 7"
proof -
  have "b AND 0x80 = b AND push_bit 7 1" by simp
  then show ?thesis
    by (simp only: and_exp_eq_0_iff_not_bit push_bit_of_1)
qed

lemma and_0x40: "(b :: byte) AND 0x40 = 0 \<longleftrightarrow> \<not> bit b 6"
proof -
  have "b AND 0x40 = b AND push_bit 6 1" by simp
  then show ?thesis
    by (simp only: and_exp_eq_0_iff_not_bit push_bit_of_1)
qed

lemma and_0x7F: "(b :: byte) AND 0x7F = take_bit 7 b"
proof -
  have "(0x7F :: byte) = mask 7" by (simp add: mask_eq_exp_minus_1)
  then show ?thesis by (simp add: take_bit_eq_mask)
qed

lemma two_bits: "take_bit 2 (w :: byte) < 4"
proof -
  have "take_bit 2 w < 2 ^ 2"
    unfolding take_bit_eq_mask by (rule and_mask_less') simp
  then show ?thesis by simp
qed

subsection \<open>Sample decoding\<close>


lemma decode_drop: "decode hi lo = drop_bit 4 (sint (push_bit 8 (ucast hi :: 16 word) OR ucast lo))"
  by (simp add: decode_def sint_signed_drop_bit_eq)

lemma decode_bounds: "- 2048 \<le> decode hi lo \<and> decode hi lo \<le> 2047"
proof -
  let ?w = "push_bit 8 (ucast hi :: 16 word) OR ucast lo"
  have lo: "- (2 ^ 15) \<le> sint ?w" and hi: "sint ?w < 2 ^ 15"
    using sint_ge [of ?w] sint_lt [of ?w] by simp_all
  have "- 2048 \<le> sint ?w div 16" "sint ?w div 16 \<le> 2047"
    using lo hi by simp_all
  then show ?thesis
    by (simp add: decode_drop drop_bit_eq_div)
qed

text \<open>
  C1. For every pair of raw bytes (high, low), the decoding used by \<open>read\<close> (the
  big-endian 16-bit combination of the two bytes, shifted right by 4 arithmetically) is a
  signed integer between -2048 and 2047; the bytes (0x7F, 0xF0) decode to 2047 and the
  bytes (0x80, 0x00) to -2048.
\<close>

theorem decode_range:
  "- 2048 \<le> decode hi lo \<and> decode hi lo \<le> 2047
   \<and> decode 0x7F 0xF0 = 2047 \<and> decode 0x80 0x00 = - 2048"
proof -
  have "decode 0x7F 0xF0 = 2047" "decode 0x80 0x00 = - 2048"
    by (simp_all add: decode_def)
  with decode_bounds [of hi lo] show ?thesis
    by simp
qed

subsection \<open>Tap status\<close>

lemma readTap_fst:
  "fst (readTap rc addr w) =
     (let b = fst (readRegister rc addr PULSE_SRC w) in if bit b 7 then take_bit 7 b else 0)"
  by (simp add: readTap_def Let_def split_beta and_0x80 and_0x7F)

text \<open>
  C7. For every pulse-source register byte read, \<open>readTap\<close> returns 0 (none) when the
  event-active bit (bit 7) is unset, and the low 7 bits of the byte otherwise; the byte
  0x00 gives none and the byte 0x83 gives 0x03.
\<close>

theorem readTap_status:
  "fst (readRegister rc addr PULSE_SRC w) = b \<Longrightarrow>
     (\<not> bit b 7 \<longrightarrow> fst (readTap rc addr w) = 0)
   \<and> (bit b 7 \<longrightarrow> fst (readTap rc addr w) = take_bit 7 b)
   \<and> (b = 0x00 \<longrightarrow> fst (readTap rc addr w) = 0)
   \<and> (b = 0x83 \<longrightarrow> fst (readTap rc addr w) = 0x03)"
  by (auto simp add: readTap_fst Let_def)

theorem readTap_status_witness:
  "fst (readRegister datasheet 0x1D PULSE_SRC (mock ((\<lambda>r. 0)(0x22 := 0x83)) [])) = 0x83
   \<and> bit (0x83 :: byte) 7
   \<and> fst (readTap datasheet 0x1D (mock ((\<lambda>r. 0)(0x22 := 0x83)) [])) = 0x03
   \<and> fst (readRegister datasheet 0x1D PULSE_SRC (mock (\<lambda>r. 0) [])) = 0x00
   \<and> \<not> bit (0x00 :: byte) 7
   \<and> fst (readTap datasheet 0x1D (mock (\<lambda>r. 0) [])) = 0"
proof -
  have a: "fst (readRegister datasheet 0x1D PULSE_SRC (mock ((\<lambda>r. 0)(0x22 := 0x83)) [])) = 0x83"
    by (simp add: readRegister_fst delivered_def mock_def)
  have b: "fst (readRegister datasheet 0x1D PULSE_SRC (mock (\<lambda>r. 0) [])) = 0x00"
    by (simp add: readRegister_fst delivered_def mock_def)
  show ?thesis
    using readTap_status [OF a] readTap_status [OF b] a b by simp
qed

text \<open>
  C10. \<open>readTap\<close> returns 0 for the pulse-source byte 0x80 (event-active bit set, the
  low 7 bits all zero), the value it returns for the byte 0x00 (no event): the caller
  cannot tell the two apart.
\<close>

theorem readTap_event_without_source:
  "fst (readRegister rc addr PULSE_SRC w) = 0x80 \<Longrightarrow>
   fst (readRegister rc addr' PULSE_SRC w') = 0x00 \<Longrightarrow>
     fst (readTap rc addr w) = 0 \<and> fst (readTap rc addr' w') = 0
     \<and> fst (readTap rc addr w) = fst (readTap rc addr' w')"
  by (simp add: readTap_fst Let_def)

theorem readTap_event_without_source_witness:
  "fst (readRegister datasheet 0x1D PULSE_SRC (mock ((\<lambda>r. 0)(0x22 := 0x80)) [])) = 0x80
   \<and> fst (readRegister datasheet 0x1D PULSE_SRC (mock (\<lambda>r. 0) [])) = 0x00
   \<and> fst (readTap datasheet 0x1D (mock ((\<lambda>r. 0)(0x22 := 0x80)) [])) = 0
   \<and> fst (readTap datasheet 0x1D (mock (\<lambda>r. 0) [])) = 0"
proof -
  have a: "fst (readRegister datasheet 0x1D PULSE_SRC (mock ((\<lambda>r. 0)(0x22 := 0x80)) [])) = 0x80"
    by (simp add: readRegister_fst delivered_def mock_def)
  have b: "fst (readRegister datasheet 0x1D PULSE_SRC (mock (\<lambda>r. 0) [])) = 0x00"
    by (simp add: readRegister_fst delivered_def mock_def)
  show ?thesis
    using readTap_event_without_source [OF a b] a b by simp
qed

subsection \<open>Orientation status\<close>

lemma readPL_fst:
  "fst (readPL rc lockout addr w) =
     (let b = fst (readRegister rc addr PL_STATUS w)
      in if bit b 6 then lockout else take_bit 2 (drop_bit 1 b))"
  by (simp add: readPL_def Let_def split_beta and_0x40 take_bit_eq_mask mask_eq_exp_minus_1)

text \<open>
  C6. For every orientation-status byte read, \<open>readPL\<close> returns \<open>LOCKOUT\<close> whenever
  bit 6 is set, whatever the other bits; otherwise it returns the 2-bit code in bits 1
  and 2 of the byte, a value below 4 that names one of the four orientations.
\<close>

theorem readPL_orientation:
  "fst (readRegister rc addr PL_STATUS w) = b \<Longrightarrow>
     (bit b 6 \<longrightarrow> fst (readPL rc lockout addr w) = lockout)
   \<and> (\<not> bit b 6 \<longrightarrow> fst (readPL rc lockout addr w) = take_bit 2 (drop_bit 1 b)
                    \<and> fst (readPL rc lockout addr w) < 4)"
  by (auto simp add: readPL_fst Let_def two_bits)

theorem readPL_orientation_witness:
  "fst (readRegister datasheet 0x1D PL_STATUS (mock ((\<lambda>r. 0)(0x10 := 0x46)) [])) = 0x46
   \<and> bit (0x46 :: byte) 6
   \<and> fst (readPL datasheet 0x40 0x1D (mock ((\<lambda>r. 0)(0x10 := 0x46)) [])) = 0x40
   \<and> fst (readRegister datasheet 0x1D PL_STATUS (mock ((\<lambda>r. 0)(0x10 := 0x84)) [])) = 0x84
   \<and> \<not> bit (0x84 :: byte) 6
   \<and> fst (readPL datasheet 0x40 0x1D (mock ((\<lambda>r. 0)(0x10 := 0x84)) [])) = 2"
proof -
  have a: "fst (readRegister datasheet 0x1D PL_STATUS (mock ((\<lambda>r. 0)(0x10 := 0x46)) [])) = 0x46"
    by (simp add: readRegister_fst delivered_def mock_def)
  have b: "fst (readRegister datasheet 0x1D PL_STATUS (mock ((\<lambda>r. 0)(0x10 := 0x84)) [])) = 0x84"
    by (simp add: readRegister_fst delivered_def mock_def)
  show ?thesis
    using readPL_orientation [OF a, where lockout = "0x40"]
      readPL_orientation [OF b, where lockout = "0x40"] a b by simp
qed

subsection \<open>Tap configuration\<close>

lemma writeRegister_writes:
  "writes (writeRegister rc addr reg v w) = writes w @ [(rc reg, v)]"
  by (simp add: writeRegister_eq)

text \<open>
  C5. For every triple of threshold bytes, \<open>setupTap\<close> writes an axis's threshold
  register exactly when the byte of that axis has its high bit clear, and in exactly that
  case the 2-bit enable field of the axis (0x03, 0x0C, 0x30) is set in the accumulator;
  after the three axes it writes the accumulator with the mode bit 0x40 to the
  pulse-config register, then the three timing registers (time limit 0x30, latency 0xA0,
  window 0xFF). The writes are given as the device takes them, in order. With the
  thresholds 0x80, 0x80, 0x08 of \<open>init\<close>, no x or y threshold is written, no x or y
  enable bit is set, and 0x08 goes to the z threshold register.
\<close>

theorem setupTap_writes:
  "writes (setupTap rc addr xThs yThs zThs w) =
     writes w
     @ (if bit xThs 7 then [] else [(rc PULSE_THSX, xThs)])
     @ (if bit yThs 7 then [] else [(rc PULSE_THSY, yThs)])
     @ (if bit zThs 7 then [] else [(rc PULSE_THSZ, zThs)])
     @ [(rc PULSE_CFG,
         (if bit xThs 7 then 0 else 0x03) OR (if bit yThs 7 then 0 else 0x0C)
           OR (if bit zThs 7 then 0 else 0x30) OR 0x40),
        (rc PULSE_TMLT, 0x30), (rc PULSE_LTCY, 0xA0), (rc PULSE_WIND, 0xFF)]
   \<and> writes (setupTap rc addr 0x80 0x80 0x08 w) =
     writes w
     @ [(rc PULSE_THSZ, 0x08), (rc PULSE_CFG, 0x70),
        (rc PULSE_TMLT, 0x30), (rc PULSE_LTCY, 0xA0), (rc PULSE_WIND, 0xFF)]"
proof -
  have general: "writes (setupTap rc addr x y z w) =
     writes w
     @ (if bit x 7 then [] else [(rc PULSE_THSX, x)])
     @ (if bit y 7 then [] else [(rc PULSE_THSY, y)])
     @ (if bit z 7 then [] else [(rc PULSE_THSZ, z)])
     @ [(rc PULSE_CFG,
         (if bit x 7 then 0 else 0x03) OR (if bit y 7 then 0 else 0x0C)
           OR (if bit z 7 then 0 else 0x30) OR 0x40),
        (rc PULSE_TMLT, 0x30), (rc PULSE_LTCY, 0xA0), (rc PULSE_WIND, 0xFF)]" for x y z
    by (simp add: setupTap_def Let_def and_0x80 writeRegister_writes)
  have "writes (setupTap rc addr 0x80 0x80 0x08 w) =
     writes w
     @ [(rc PULSE_THSZ, 0x08), (rc PULSE_CFG, 0x70),
        (rc PULSE_TMLT, 0x30), (rc PULSE_LTCY, 0xA0), (rc PULSE_WIND, 0xFF)]"
    by (simp add: general)
  with general show ?thesis by blast
qed

theorem setupTap_writes_witness:
  "writes (setupTap datasheet 0x1D 0x80 0x11 0x08 (mock (\<lambda>r. 0) [])) =
     [(0x24, 0x11), (0x25, 0x08), (0x21, 0x7C), (0x26, 0x30), (0x27, 0xA0), (0x28, 0xFF)]"
  using setupTap_writes [where rc = datasheet and addr = "0x1D" and xThs = "0x80"
      and yThs = "0x11" and zThs = "0x08" and w = "mock (\<lambda>r. 0) []"]
  by (simp add: mock_def)

subsection \<open>Initialisation\<close>

lemma active_last_write:
  "writes (active rc addr w) = writes w @ [(rc CTRL_REG1, fst (readRegister rc addr CTRL_REG1 w) OR 1)]"
  by (simp add: active_def split_beta writeRegister_eq readRegister_writes)

lemma active_regs:
  "regs (active rc addr w) (rc CTRL_REG1) = fst (readRegister rc addr CTRL_REG1 w) OR 1"
  by (simp add: active_def split_beta writeRegister_eq)

lemma init_handle: "fst (snd (init rc d fsr odr w)) = d\<lparr>scale := fsr\<rparr>"
  by (simp add: init_def Let_def split_beta)

lemma init_status:
  "fst (init rc d fsr odr w) =
     (if fst (readRegister rc (address d) WHO_AM_I (Wire_begin w)) = 0x2A then 1 else 0)"
  by (simp add: init_def Let_def split_beta)

lemma init_failure_bus:
  "fst (readRegister rc (address d) WHO_AM_I (Wire_begin w)) \<noteq> 0x2A \<Longrightarrow>
     snd (snd (init rc d fsr odr w)) = snd (readRegister rc (address d) WHO_AM_I (Wire_begin w))"
  by (simp add: init_def Let_def split_beta)

lemma init_success_bus:
  "fst (readRegister rc (address d) WHO_AM_I (Wire_begin w)) = 0x2A \<Longrightarrow>
     \<exists>w'. snd (snd (init rc d fsr odr w)) = active rc (address d) w'"
  by (simp add: init_def Let_def split_beta) blast

lemma bit0_or_1: "bit ((c :: byte) OR 1) 0"
  by (simp add: bit_or_iff)

text \<open>
  C2. \<open>init\<close> returns success (1) if and only if the identity register reads 0x2A. When
  the check fails it returns failure (0) and the device takes no register write: its
  write log and register file are as before. When it succeeds, the last register write
  of the sequence goes to the control register with bit 0 set, and the device's control
  register has its active bit set afterwards.
\<close>

theorem init_identity:
  "fst (readRegister rc (address d) WHO_AM_I (Wire_begin w)) = c \<Longrightarrow>
     (fst (init rc d fsr odr w) = 1 \<longleftrightarrow> c = 0x2A)
   \<and> (c \<noteq> 0x2A \<longrightarrow>
        fst (init rc d fsr odr w) = 0
        \<and> writes (snd (snd (init rc d fsr odr w))) = writes w
        \<and> regs (snd (snd (init rc d fsr odr w))) = regs w)
   \<and> (c = 0x2A \<longrightarrow>
        writes (snd (snd (init rc d fsr odr w))) \<noteq> []
        \<and> fst (last (writes (snd (snd (init rc d fsr odr w))))) = rc CTRL_REG1
        \<and> bit (snd (last (writes (snd (snd (init rc d fsr odr w)))))) 0
        \<and> bit (regs (snd (snd (init rc d fsr odr w))) (rc CTRL_REG1)) 0)"
proof -
  assume c: "fst (readRegister rc (address d) WHO_AM_I (Wire_begin w)) = c"
  have status: "fst (init rc d fsr odr w) = 1 \<longleftrightarrow> c = 0x2A"
    using c by (simp add: init_status)
  have failure: "fst (init rc d fsr odr w) = 0
        \<and> writes (snd (snd (init rc d fsr odr w))) = writes w
        \<and> regs (snd (snd (init rc d fsr odr w))) = regs w" if "c \<noteq> 0x2A"
    using that c
    by (simp add: init_status init_failure_bus readRegister_writes readRegister_regs
        Wire_begin_def)
  have success: "writes (snd (snd (init rc d fsr odr w))) \<noteq> []
        \<and> fst (last (writes (snd (snd (init rc d fsr odr w))))) = rc CTRL_REG1
        \<and> bit (snd (last (writes (snd (snd (init rc d fsr odr w)))))) 0
        \<and> bit (regs (snd (snd (init rc d fsr odr w))) (rc CTRL_REG1)) 0" if "c = 0x2A"
  proof -
    from c that have "fst (readRegister rc (address d) WHO_AM_I (Wire_begin w)) = 0x2A"
      by simp
    from init_success_bus [OF this]
    obtain w' where "snd (snd (init rc d fsr odr w)) = active rc (address d) w'"
      by blast
    then show ?thesis
      by (simp add: active_last_write active_regs bit0_or_1)
  qed
  from status failure success show ?thesis by blast
qed

theorem init_identity_witness:
  "fst (readRegister datasheet (address sensor) WHO_AM_I
         (Wire_begin (mock ((\<lambda>r. 0)(0x0D := 0x2A)) []))) = 0x2A
   \<and> fst (init datasheet sensor SCALE_4G ODR_100 (mock ((\<lambda>r. 0)(0x0D := 0x2A)) [])) = 1
   \<and> bit (regs (snd (snd (init datasheet sensor SCALE_4G ODR_100
                              (mock ((\<lambda>r. 0)(0x0D := 0x2A)) [])))) (datasheet CTRL_REG1)) 0
   \<and> fst (readRegister datasheet (address sensor) WHO_AM_I
         (Wire_begin (mock (\<lambda>r. 0) []))) = 0x00
   \<and> (0x00 :: byte) \<noteq> 0x2A
   \<and> fst (init datasheet sensor SCALE_4G ODR_100 (mock (\<lambda>r. 0) [])) = 0
   \<and> writes (snd (snd (init datasheet sensor SCALE_4G ODR_100 (mock (\<lambda>r. 0) [])))) = []"
proof -
  have a: "fst (readRegister datasheet (address sensor) WHO_AM_I
         (Wire_begin (mock ((\<lambda>r. 0)(0x0D := 0x2A)) []))) = 0x2A"
    by (simp add: readRegister_fst delivered_def mock_def Wire_begin_def)
  have b: "fst (readRegister datasheet (address sensor) WHO_AM_I
         (Wire_begin (mock (\<lambda>r. 0) []))) = 0x00"
    by (simp add: readRegister_fst delivered_def mock_def Wire_begin_def)
  have m: "writes (mock (\<lambda>r. 0) []) = []"
    by (simp add: mock_def)
  show ?thesis
    using init_identity [OF a, where fsr = SCALE_4G and odr = ODR_100]
      init_identity [OF b, where fsr = SCALE_4G and odr = ODR_100] a b m
    by simp
qed

text \<open>
  C9. \<open>init\<close> stores the requested range in the driver object before the identity
  check: whatever the status, the stored scale is the requested one afterwards, so a
  failed \<open>init\<close> that asked for another range than the stored one leaves the driver
  object changed.
\<close>

theorem init_sets_scale:
  "scale (fst (snd (init rc d fsr odr w))) = fsr
   \<and> (fst (init rc d fsr odr w) = 0 \<and> scale d \<noteq> fsr \<longrightarrow> fst (snd (init rc d fsr odr w)) \<noteq> d)"
proof -
  have "d\<lparr>scale := fsr\<rparr> \<noteq> d" if "scale d \<noteq> fsr"
  proof
    assume "d\<lparr>scale := fsr\<rparr> = d"
    then have "scale (d\<lparr>scale := fsr\<rparr>) = scale d" by simp
    with that show False by simp
  qed
  then show ?thesis
    by (simp add: init_handle)
qed

theorem init_sets_scale_witness:
  "fst (init datasheet sensor SCALE_8G ODR_800 (mock (\<lambda>r. 0) [])) = 0
   \<and> scale sensor \<noteq> SCALE_8G
   \<and> scale (fst (snd (init datasheet sensor SCALE_8G ODR_800 (mock (\<lambda>r. 0) [])))) = SCALE_8G
   \<and> fst (snd (init datasheet sensor SCALE_8G ODR_800 (mock (\<lambda>r. 0) []))) \<noteq> sensor"
proof -
  have a: "fst (init datasheet sensor SCALE_8G ODR_800 (mock (\<lambda>r. 0) [])) = 0"
    by (simp add: init_status readRegister_fst delivered_def mock_def Wire_begin_def)
  have b: "scale sensor \<noteq> SCALE_8G"
    by (simp add: sensor_def)
  show ?thesis
    using init_sets_scale [of datasheet sensor SCALE_8G ODR_800 "mock (\<lambda>r. 0) []"] a b
    by simp
qed

subsection \<open>Reads that the transport cuts short\<close>

lemma available_after_request: "Wire_available (Wire_requestFrom addr n w) = delivered w n"
  by (simp add: Wire_available_def Wire_requestFrom_def)

lemma readRegisters_short:
  "delivered w (unat len) < unat len \<Longrightarrow> fst (readRegisters rc addr reg buffer len w) = buffer"
proof -
  assume short: "delivered w (unat len) < unat len"
  have d: "delivered (w\<lparr>pointer := rc reg, txBuffer := []\<rparr>) n = delivered w n" for n
    by (simp add: delivered_def)
  from short show ?thesis
    by (simp add: readRegisters_def select_register available_after_request d Let_def)
qed

text \<open>
  C3. When a burst read of \<open>len\<close> bytes receives fewer bytes than requested,
  \<open>readRegisters\<close> leaves the destination buffer as it was: no partial fill, no zero
  fill. When a single-register read receives no byte, \<open>readRegister\<close> returns 0, the
  value it also returns for a register that holds 0 and answers.
\<close>

theorem short_read:
  "(delivered w (unat len) < unat len \<longrightarrow>
      fst (readRegisters rc addr reg buffer len w) = buffer)
   \<and> (delivered w0 1 = 0 \<longrightarrow> fst (readRegister rc addr reg' w0) = 0)
   \<and> (delivered w1 1 = 1 \<and> regs w1 (rc reg') = 0 \<longrightarrow>
        fst (readRegister rc addr reg' w1) = 0)"
  by (simp add: readRegisters_short readRegister_fst)

theorem short_read_witness:
  "delivered (mock (\<lambda>r. 0xAB) [3]) (unat (6 :: byte)) < unat (6 :: byte)
   \<and> fst (readRegisters datasheet 0x1D OUT_X_MSB [1, 2, 3, 4, 5, 6] 6 (mock (\<lambda>r. 0xAB) [3]))
       = [1, 2, 3, 4, 5, 6]
   \<and> delivered (mock (\<lambda>r. 0xAB) [0]) 1 = 0
   \<and> fst (readRegister datasheet 0x1D WHO_AM_I (mock (\<lambda>r. 0xAB) [0])) = 0
   \<and> delivered (mock (\<lambda>r. 0) []) 1 = 1
   \<and> regs (mock (\<lambda>r. 0) []) (datasheet WHO_AM_I) = 0
   \<and> fst (readRegister datasheet 0x1D WHO_AM_I (mock (\<lambda>r. 0) [])) = 0"
proof -
  have a: "delivered (mock (\<lambda>r. 0xAB) [3]) (unat (6 :: byte)) < unat (6 :: byte)"
    by (simp add: delivered_def mock_def)
  have b: "delivered (mock (\<lambda>r. 0xAB) [0]) 1 = 0"
    by (simp add: delivered_def mock_def)
  have c: "delivered (mock (\<lambda>r. 0) []) 1 = 1 \<and> regs (mock (\<lambda>r. 0) []) (datasheet WHO_AM_I) = 0"
    by (simp add: delivered_def mock_def)
  show ?thesis
    using short_read [where w = "mock (\<lambda>r. 0xAB) [3]" and len = 6 and rc = datasheet
        and addr = "0x1D" and reg = OUT_X_MSB and reg' = WHO_AM_I and buffer = "[1, 2, 3, 4, 5, 6]"
        and ?w0.0 = "mock (\<lambda>r. 0xAB) [0]" and ?w1.0 = "mock (\<lambda>r. 0) []"]
      a b c
    by simp
qed

subsection \<open>Full-scale range\<close>

lemma insert_low2:
  "drop_bit 2 (((v :: byte) AND 0xFC) OR take_bit 2 k) = drop_bit 2 v"
  "take_bit 2 (((v :: byte) AND 0xFC) OR take_bit 2 k) = take_bit 2 k"
proof -
  have e: "(0xFC :: byte) = NOT (mask 2)"
    by (simp add: mask_eq_exp_minus_1)
  show "drop_bit 2 ((v AND 0xFC) OR take_bit 2 k) = drop_bit 2 v"
    unfolding e by (rule bit_word_eqI) (auto simp add: bit_simps dest: bit_imp_le_length)
  show "take_bit 2 ((v AND 0xFC) OR take_bit 2 k) = take_bit 2 k"
    unfolding e by (rule bit_word_eqI) (auto simp add: bit_simps)
qed

lemma scale_code:
  "(word_of_int (drop_bit 2 (scale_val fsr)) :: byte) =
     take_bit 2 (case fsr of SCALE_2G \<Rightarrow> 0 | SCALE_4G \<Rightarrow> 1 | SCALE_8G \<Rightarrow> 2)"
  by (cases fsr) simp_all

lemma setScale_regs:
  "delivered w 1 = 1 \<Longrightarrow>
     regs (setScale rc addr fsr w) =
       (regs w)(rc XYZ_DATA_CFG :=
          (regs w (rc XYZ_DATA_CFG) AND 0xFC)
            OR take_bit 2 (case fsr of SCALE_2G \<Rightarrow> 0 | SCALE_4G \<Rightarrow> 1 | SCALE_8G \<Rightarrow> 2))"
  by (simp add: setScale_def Let_def readRegister_eq writeRegister_eq scale_code)

lemma setScale_arrivals: "arrivals (setScale rc addr fsr w) = tl (arrivals w)"
  by (simp add: setScale_def Let_def split_beta writeRegister_eq readRegister_arrivals)

lemma delivered_arrivals: "arrivals w = arrivals w' \<Longrightarrow> delivered w n = delivered w' n"
  by (simp add: delivered_def)

text \<open>
  C4, as amended. On a bus that delivers the byte \<open>setScale\<close> reads, for every prior
  value \<open>v\<close> of the data-config register and every range, \<open>setScale\<close> writes that
  register alone, with the two low bits replaced by the range code (00 for 2g, 01 for
  4g, 10 for 8g) and bits 2 to 7 as in \<open>v\<close>. The same holds across two calls whose reads
  are both answered: after \<open>setScale\<close> for 4g and then for 8g, bits 2 to 7 are those
  of \<open>v\<close> and the low bits are 10.
\<close>

theorem setScale_preserves:
  "regs w (rc XYZ_DATA_CFG) = v \<Longrightarrow> delivered w 1 = 1 \<Longrightarrow>
     regs (setScale rc addr fsr w) =
       (regs w)(rc XYZ_DATA_CFG :=
          (v AND 0xFC) OR (case fsr of SCALE_2G \<Rightarrow> 0 | SCALE_4G \<Rightarrow> 1 | SCALE_8G \<Rightarrow> 2))
   \<and> drop_bit 2 (regs (setScale rc addr fsr w) (rc XYZ_DATA_CFG)) = drop_bit 2 v
   \<and> take_bit 2 (regs (setScale rc addr fsr w) (rc XYZ_DATA_CFG)) =
       (case fsr of SCALE_2G \<Rightarrow> 0 | SCALE_4G \<Rightarrow> 1 | SCALE_8G \<Rightarrow> 2)
   \<and> (delivered (w\<lparr>arrivals := tl (arrivals w)\<rparr>) 1 = 1 \<longrightarrow>
        drop_bit 2 (regs (setScale rc addr SCALE_8G (setScale rc addr SCALE_4G w))
                      (rc XYZ_DATA_CFG)) = drop_bit 2 v
        \<and> take_bit 2 (regs (setScale rc addr SCALE_8G (setScale rc addr SCALE_4G w))
                        (rc XYZ_DATA_CFG)) = 2)"
proof -
  assume v: "regs w (rc XYZ_DATA_CFG) = v" and first: "delivered w 1 = 1"
  let ?k = "case fsr of SCALE_2G \<Rightarrow> 0 | SCALE_4G \<Rightarrow> 1 | SCALE_8G \<Rightarrow> (2 :: byte)"
  have k: "take_bit 2 ?k = ?k"
    by (cases fsr) simp_all
  have r: "regs (setScale rc addr fsr w) = (regs w)(rc XYZ_DATA_CFG := (v AND 0xFC) OR ?k)"
    using setScale_regs [OF first, of rc addr fsr] v k by simp
  have d: "drop_bit 2 (regs (setScale rc addr fsr w) (rc XYZ_DATA_CFG)) = drop_bit 2 v"
    using insert_low2 (1) [of v ?k] by (simp add: r k)
  have t: "take_bit 2 (regs (setScale rc addr fsr w) (rc XYZ_DATA_CFG)) = ?k"
    using insert_low2 (2) [of v ?k] by (simp add: r k)
  have twice: "drop_bit 2 (regs (setScale rc addr SCALE_8G (setScale rc addr SCALE_4G w))
                      (rc XYZ_DATA_CFG)) = drop_bit 2 v
        \<and> take_bit 2 (regs (setScale rc addr SCALE_8G (setScale rc addr SCALE_4G w))
                        (rc XYZ_DATA_CFG)) = 2"
    if second: "delivered (w\<lparr>arrivals := tl (arrivals w)\<rparr>) 1 = 1"
  proof -
    let ?w1 = "setScale rc addr SCALE_4G w"
    have "delivered ?w1 1 = 1"
      using second delivered_arrivals [of ?w1 "w\<lparr>arrivals := tl (arrivals w)\<rparr>" 1]
      by (simp add: setScale_arrivals)
    from setScale_regs [OF this, of rc addr SCALE_8G]
    have two: "regs (setScale rc addr SCALE_8G ?w1) (rc XYZ_DATA_CFG) =
        (regs ?w1 (rc XYZ_DATA_CFG) AND 0xFC) OR take_bit 2 2"
      by simp
    have one: "regs ?w1 (rc XYZ_DATA_CFG) = (v AND 0xFC) OR take_bit 2 1"
      using setScale_regs [OF first, of rc addr SCALE_4G] v by simp
    have "drop_bit 2 (regs (setScale rc addr SCALE_8G ?w1) (rc XYZ_DATA_CFG)) = drop_bit 2 v"
      unfolding two insert_low2 (1) unfolding one insert_low2 (1) ..
    moreover have "take_bit 2 (regs (setScale rc addr SCALE_8G ?w1) (rc XYZ_DATA_CFG)) = 2"
      unfolding two insert_low2 (2) by simp
    ultimately show ?thesis by blast
  qed
  from r d t twice show ?thesis by blast
qed

theorem setScale_preserves_witness:
  "regs (mock ((\<lambda>r. 0)(0x0E := 0xF3)) []) (datasheet XYZ_DATA_CFG) = 0xF3
   \<and> delivered (mock ((\<lambda>r. 0)(0x0E := 0xF3)) []) 1 = 1
   \<and> delivered (mock ((\<lambda>r. 0)(0x0E := 0xF3)) []\<lparr>arrivals := tl (arrivals (mock ((\<lambda>r. 0)(0x0E := 0xF3)) []))\<rparr>) 1 = 1
   \<and> regs (setScale datasheet 0x1D SCALE_4G (mock ((\<lambda>r. 0)(0x0E := 0xF3)) [])) 0x0E = 0xF1
   \<and> drop_bit 2 (regs (setScale datasheet 0x1D SCALE_8G
                    (setScale datasheet 0x1D SCALE_4G (mock ((\<lambda>r. 0)(0x0E := 0xF3)) []))) 0x0E)
       = (0x3C :: byte)
   \<and> take_bit 2 (regs (setScale datasheet 0x1D SCALE_8G
                    (setScale datasheet 0x1D SCALE_4G (mock ((\<lambda>r. 0)(0x0E := 0xF3)) []))) 0x0E)
       = (2 :: byte)"
proof -
  let ?w = "mock ((\<lambda>r. 0)(0x0E := 0xF3)) []"
  have a: "regs ?w (datasheet XYZ_DATA_CFG) = 0xF3"
    by (simp add: mock_def)
  have b: "delivered ?w 1 = 1"
    by (simp add: mock_def delivered_def)
  have c: "delivered (?w\<lparr>arrivals := tl (arrivals ?w)\<rparr>) 1 = 1"
    by (simp add: mock_def delivered_def)
  show ?thesis
    using setScale_preserves [where rc = datasheet and w = ?w and v = "0xF3"
        and addr = "0x1D" and fsr = SCALE_4G] a b c
    by simp
qed

text \<open>
  Without the condition the claim fails: \<open>readRegister\<close> returns 0 for a read that no
  byte answers (line 233), and \<open>setScale\<close> then writes the range code alone. With the
  prior value 0xF3 and an unanswered read, \<open>setScale\<close> for 8g writes 0x02: bits 2 to 7
  of the register are lost.
\<close>

theorem setScale_unanswered_counterexample:
  "regs unanswered (datasheet XYZ_DATA_CFG) = 0xF3
   \<and> delivered unanswered 1 = 0
   \<and> writes (setScale datasheet 0x1D SCALE_8G unanswered) = [(0x0E, 0x02)]
   \<and> regs (setScale datasheet 0x1D SCALE_8G unanswered) (datasheet XYZ_DATA_CFG) = 0x02
   \<and> drop_bit 2 (regs (setScale datasheet 0x1D SCALE_8G unanswered) (datasheet XYZ_DATA_CFG))
       \<noteq> drop_bit 2 (0xF3 :: byte)"
proof -
  have d: "delivered unanswered 1 = 0"
    by (simp add: delivered_def unanswered_def)
  have r: "regs unanswered (datasheet XYZ_DATA_CFG) = 0xF3"
    by (simp add: unanswered_def)
  have w: "writes unanswered = []"
    by (simp add: unanswered_def)
  have s: "setScale datasheet 0x1D SCALE_8G unanswered =
      writeRegister datasheet 0x1D XYZ_DATA_CFG 0x02
        (snd (readRegister datasheet 0x1D XYZ_DATA_CFG unanswered))"
    using d by (simp add: setScale_def Let_def split_beta readRegister_fst)
  have "writes (setScale datasheet 0x1D SCALE_8G unanswered) = [(0x0E, 0x02)]"
    by (simp add: s writeRegister_eq readRegister_writes w)
  moreover have "regs (setScale datasheet 0x1D SCALE_8G unanswered) (datasheet XYZ_DATA_CFG) = 0x02"
    by (simp add: s writeRegister_eq)
  ultimately show ?thesis
    using d r by simp
qed

subsection \<open>Rounding to the single format\<close>

lemma nearest_even_of_int: "nearest_even (of_int n) = n"
  by (simp add: nearest_even_def)

lemma find_upto_least:
  assumes "List.find P [l .. u] = Some e" and "l \<le> k" and "k \<le> u" and "P k"
  shows "e \<le> k"
proof (rule ccontr)
  assume "\<not> e \<le> k"
  then have ke: "k < e" by simp
  from assms(1) obtain i where i: "i < length [l .. u]" "e = [l .. u] ! i"
      and least: "\<forall>j<i. \<not> P ([l .. u] ! j)"
    unfolding find_Some_iff by blast
  from i have ei: "e = l + int i"
    by simp
  let ?j = "nat (k - l)"
  have "?j < i" using ke ei assms(2) by simp
  moreover have "[l .. u] ! ?j = k"
    using assms(2,3) by simp
  ultimately show False
    using least assms(4) by auto
qed

lemma round_binary32_exact:
  assumes "binary32 r"
  shows "round_binary32 r = r"
proof -
  from assms obtain m :: int and a b :: nat
    where m: "\<bar>m\<bar> < 2 ^ 24" and a: "a \<le> 104" and b: "b \<le> 149"
      and r: "r = of_int m * 2 ^ a / 2 ^ b"
    unfolding binary32_def by blast
  define k where "k = int a - int b"
  have rk: "r = of_int m * 2 powi k"
    by (simp add: k_def r power_int_diff)
  have k: "- 149 \<le> k" "k \<le> 104"
    using a b by (simp_all add: k_def)
  let ?P = "\<lambda>e. \<bar>r\<bar> < 2 ^ 24 * 2 powi e"
  have "(of_int \<bar>m\<bar> :: rat) < of_int (2 ^ 24)"
    using m by (simp only: of_int_less_iff)
  then have "\<bar>of_int m :: rat\<bar> * 2 powi k < 2 ^ 24 * 2 powi k"
    by (intro mult_strict_right_mono) simp_all
  then have Pk: "?P k"
    by (simp add: rk abs_mult)
  have "k \<in> set [- 149 .. 104]"
    unfolding set_upto using k by simp
  with Pk have "List.find ?P [- 149 .. 104] \<noteq> None"
    unfolding find_None_iff by blast
  then obtain e where e: "List.find ?P [- 149 .. 104] = Some e"
    by blast
  have "e \<le> k"
    using find_upto_least [OF e k Pk] .
  then have "r / 2 powi e = of_int m * 2 powi (k - e)"
    by (simp add: rk power_int_diff)
  also have "\<dots> = of_int (m * 2 ^ nat (k - e))"
    using \<open>e \<le> k\<close> by (simp add: power_int_def)
  finally have q: "r / 2 powi e = of_int (m * 2 ^ nat (k - e))" .
  have "round_binary32 r = of_int (nearest_even (r / 2 powi e)) * 2 powi e"
    unfolding round_binary32_def e by simp
  also have "\<dots> = r / 2 powi e * 2 powi e"
    unfolding q nearest_even_of_int ..
  also have "\<dots> = r"
    by simp
  finally show ?thesis .
qed

lemma exact_rounding_binary32: "exact_rounding round_binary32"
  by (simp add: exact_rounding_def round_binary32_exact)

lemma round_binary32_third: "round_binary32 (1 / 3) = 11184811 / 33554432"
  by code_simp

subsection \<open>Calibrated sample\<close>

lemma binary32I:
  "\<bar>m\<bar> < 2 ^ 24 \<Longrightarrow> a \<le> 104 \<Longrightarrow> b \<le> 149 \<Longrightarrow> r = of_int m * 2 ^ a / 2 ^ b \<Longrightarrow> binary32 r"
  unfolding binary32_def by blast

lemma calibrated_exact:
  assumes fl: "exact_rounding fl" and v: "\<bar>v\<bar> < 2 ^ 24"
  shows "calibrated fl v s = of_int v / 2048 * of_int (scale_val s)"
proof -
  have ex: "fl r = r" if "binary32 r" for r
    using fl that by (simp add: exact_rounding_def)
  have c1: "fl (of_int v) = of_int v"
    by (rule ex, rule binary32I [of v 0 0]) (use v in simp_all)
  have c2: "fl 2048 = 2048"
    using ex [OF binary32I [of 1 11 0 2048]] by simp
  have c3: "fl (of_int (scale_val s)) = of_int (scale_val s)"
    by (rule ex, rule binary32I [of "scale_val s" 0 0]) (cases s; simp)+
  have c4: "fl (of_int v / 2048) = of_int v / 2048"
    by (rule ex, rule binary32I [of v 0 11]) (use v in simp_all)
  have c5: "fl (of_int v / 2048 * of_int (scale_val s)) = of_int v / 2048 * of_int (scale_val s)"
  proof (rule ex, cases s)
    case SCALE_2G
    then show "binary32 (of_int v / 2048 * of_int (scale_val s))"
      by (intro binary32I [of v 1 11]) (use v in simp_all)
  next
    case SCALE_4G
    then show "binary32 (of_int v / 2048 * of_int (scale_val s))"
      by (intro binary32I [of v 2 11]) (use v in simp_all)
  next
    case SCALE_8G
    then show "binary32 (of_int v / 2048 * of_int (scale_val s))"
      by (intro binary32I [of v 3 11]) (use v in simp_all)
  qed
  have "calibrated fl v s = fl (fl (fl (of_int v) / fl 2048) * fl (of_int (scale_val s)))"
    by (simp add: calibrated_def)
  also have "\<dots> = fl (fl (of_int v / 2048) * of_int (scale_val s))"
    by (simp only: c1 c2 c3)
  also have "\<dots> = fl (of_int v / 2048 * of_int (scale_val s))"
    by (simp only: c4)
  also have "\<dots> = of_int v / 2048 * of_int (scale_val s)"
    by (rule c5)
  finally show ?thesis .
qed

lemma read_fields:
  "raw_x (fst (read fl rc stack d w)) =
     decode (fst (readRegisters rc (address d) OUT_X_MSB stack 6 w) ! 0)
            (fst (readRegisters rc (address d) OUT_X_MSB stack 6 w) ! 1)"
  "raw_y (fst (read fl rc stack d w)) =
     decode (fst (readRegisters rc (address d) OUT_X_MSB stack 6 w) ! 2)
            (fst (readRegisters rc (address d) OUT_X_MSB stack 6 w) ! 3)"
  "raw_z (fst (read fl rc stack d w)) =
     decode (fst (readRegisters rc (address d) OUT_X_MSB stack 6 w) ! 4)
            (fst (readRegisters rc (address d) OUT_X_MSB stack 6 w) ! 5)"
  "cx (fst (read fl rc stack d w)) = calibrated fl (raw_x (fst (read fl rc stack d w))) (scale d)"
  "cy (fst (read fl rc stack d w)) = calibrated fl (raw_y (fst (read fl rc stack d w))) (scale d)"
  "cz (fst (read fl rc stack d w)) = calibrated fl (raw_z (fst (read fl rc stack d w))) (scale d)"
  "scale (fst (read fl rc stack d w)) = scale d"
  by (simp_all add: read_def Let_def split_beta)

lemma decode_small: "\<bar>decode hi lo\<bar> < 2 ^ 24"
proof -
  have "\<bar>decode hi lo\<bar> \<le> 2048"
    using decode_bounds [of hi lo] by linarith
  then show ?thesis by simp
qed

lemma burst_example:
  "fst (readRegisters datasheet 0x1D OUT_X_MSB [0, 0, 0, 0, 0, 0] 6
          (mock ((\<lambda>r. 0)(0x01 := 0x40)) [])) = [0x40, 0, 0, 0, 0, 0]"
  by code_simp


text \<open>
  C8. For every decoded raw value and configured range, the calibrated value that
  \<open>read\<close> computes is raw / 2048 times the range in g, which is 2, 4 or 8 as the
  configured scale says; the raw value 2048 at 4g gives exactly 4. The \<open>float\<close>
  operations of line 58 round, and the rounding is only assumed exact on the numbers of
  the single format: every intermediate result is one.
\<close>

theorem read_calibrated:
  "exact_rounding fl \<Longrightarrow>
     cx (fst (read fl rc stack d w)) =
       of_int (raw_x (fst (read fl rc stack d w))) / 2048 * of_int (scale_val (scale d))
   \<and> cy (fst (read fl rc stack d w)) =
       of_int (raw_y (fst (read fl rc stack d w))) / 2048 * of_int (scale_val (scale d))
   \<and> cz (fst (read fl rc stack d w)) =
       of_int (raw_z (fst (read fl rc stack d w))) / 2048 * of_int (scale_val (scale d))
   \<and> scale_val (scale d) \<in> {2, 4, 8}
   \<and> calibrated fl (decode hi lo) s = of_int (decode hi lo) / 2048 * of_int (scale_val s)
   \<and> calibrated fl 2048 SCALE_4G = 4"
proof -
  assume fl: "exact_rounding fl"
  have x: "cx (fst (read fl rc stack d w)) =
       of_int (raw_x (fst (read fl rc stack d w))) / 2048 * of_int (scale_val (scale d))"
    unfolding read_fields (4) unfolding read_fields (1)
    by (rule calibrated_exact [OF fl decode_small])
  have y: "cy (fst (read fl rc stack d w)) =
       of_int (raw_y (fst (read fl rc stack d w))) / 2048 * of_int (scale_val (scale d))"
    unfolding read_fields (5) unfolding read_fields (2)
    by (rule calibrated_exact [OF fl decode_small])
  have z: "cz (fst (read fl rc stack d w)) =
       of_int (raw_z (fst (read fl rc stack d w))) / 2048 * of_int (scale_val (scale d))"
    unfolding read_fields (6) unfolding read_fields (3)
    by (rule calibrated_exact [OF fl decode_small])
  have g: "scale_val (scale d) \<in> {2, 4, 8}"
    by (cases "scale d") simp_all
  have e: "calibrated fl (decode hi lo) s = of_int (decode hi lo) / 2048 * of_int (scale_val s)"
    by (rule calibrated_exact [OF fl decode_small])
  have f: "calibrated fl 2048 SCALE_4G = 4"
    using calibrated_exact [OF fl, of 2048 SCALE_4G] by simp
  from x y z g e f show ?thesis by blast
qed

theorem read_calibrated_witness:
  "exact_rounding round_binary32
   \<and> raw_x (fst (read round_binary32 datasheet [0, 0, 0, 0, 0, 0] sensor
                   (mock ((\<lambda>r. 0)(0x01 := 0x40)) []))) = 1024
   \<and> cx (fst (read round_binary32 datasheet [0, 0, 0, 0, 0, 0] sensor
                (mock ((\<lambda>r. 0)(0x01 := 0x40)) []))) = 1
   \<and> calibrated round_binary32 (decode 0x7F 0xF0) SCALE_8G = 2047 / 256
   \<and> calibrated round_binary32 2048 SCALE_4G = 4"
proof -
  have a: "address sensor = 0x1D" "scale sensor = SCALE_2G"
    by (simp_all add: sensor_def)
  have d: "decode 0x40 0 = 1024" "decode 0x7F 0xF0 = 2047"
    by (simp_all add: decode_def)
  have x: "raw_x (fst (read round_binary32 datasheet [0, 0, 0, 0, 0, 0] sensor
                   (mock ((\<lambda>r. 0)(0x01 := 0x40)) []))) = 1024"
    by (simp add: read_fields a burst_example d)
  show ?thesis
    using read_calibrated [OF exact_rounding_binary32, where rc = datasheet
        and stack = "[0, 0, 0, 0, 0, 0]" and d = sensor
        and w = "mock ((\<lambda>r. 0)(0x01 := 0x40)) []" and hi = "0x7F" and lo = "0xF0"
        and s = SCALE_8G]
      exact_rounding_binary32 x
    by (simp add: a d)
qed

end
